theory Spec2Isabelle
  imports Complex_Main
begin

section \<open>Values crossing the tool-call boundary\<close>

text \<open>
  The handler receives \<open>request.params.arguments\<close> as \<open>unknown\<close>: whatever JSON the
  caller sent. The guard \<open>isReplicateArgs\<close> inspects only \<open>prompt\<close>, so at run time every
  other property of the object handed to \<open>generateImage\<close> is an arbitrary JSON value.
  An object is the list of its own properties, keys distinct.

  A number is a value of the language's number type as the handler holds it: a finite
  value (\<open>Finite q\<close>, of magnitude below \<open>2 ^ 1024\<close>; \<open>Finite 0\<close> is the positive zero),
  the negative zero, or one of the two infinities. An infinity is what a numeral beyond
  that range, such as \<open>1e309\<close>, has become when the arguments reach the handler. Numbers
  are never computed with, only tested for truthiness and written into the request.
\<close>

datatype jsnum =
    Finite rat
  | NegZero
  | PosInfinity
  | NegInfinity

datatype json =
    JNull
  | JBool bool
  | JNum jsnum
  | JStr string
  | JArr "json list"
  | JObj "(string \<times> json) list"

text \<open>JavaScript's \<open>typeof\<close> on a JSON value.\<close>

fun js_typeof :: "json \<Rightarrow> string" where
  "js_typeof JNull = ''object''"
| "js_typeof (JBool b) = ''boolean''"
| "js_typeof (JNum n) = ''number''"
| "js_typeof (JStr s) = ''string''"
| "js_typeof (JArr xs) = ''object''"
| "js_typeof (JObj kvs) = ''object''"

text \<open>Truthiness, as tested by \<open>!args\<close>.\<close>

fun truthy :: "json \<Rightarrow> bool" where
  "truthy JNull = False"
| "truthy (JBool b) = b"
| "truthy (JNum n) = (n \<noteq> Finite 0 \<and> n \<noteq> NegZero)"
| "truthy (JStr s) = (s \<noteq> [])"
| "truthy (JArr xs) = True"
| "truthy (JObj kvs) = True"

text \<open>
  Reading a named property; \<open>None\<close> is \<open>undefined\<close>. The names read by this program
  (\<open>prompt\<close>, \<open>raw\<close>, \<open>seed\<close>, ...) are neither array indices nor inherited from a prototype,
  so only an object yields a value for them.
\<close>

fun get_prop :: "json \<Rightarrow> string \<Rightarrow> json option" where
  "get_prop (JObj kvs) k = map_of kvs k"
| "get_prop v k = None"

text \<open>The \<open>in\<close> operator, for the same names.\<close>

fun has_prop :: "json \<Rightarrow> string \<Rightarrow> bool" where
  "has_prop (JObj kvs) k = (map_of kvs k \<noteq> None)"
| "has_prop v k = False"

text \<open>The nullish coalescing operator \<open>??\<close>: the default replaces \<open>undefined\<close> and \<open>null\<close>.\<close>

fun nullish :: "json option \<Rightarrow> json \<Rightarrow> json" where
  "nullish None d = d"
| "nullish (Some JNull) d = d"
| "nullish (Some v) d = v"

section \<open>Request and response shapes\<close>

text \<open>
  The object literal built by \<open>generateImage\<close>, before it is serialised. A property may
  hold \<open>undefined\<close> (\<open>None\<close>); the five defaulted properties always hold a value.
\<close>

record ReplicateInput =
  prompt :: "json option"
  raw :: json
  seed :: "json option"
  aspect_ratio :: json
  image_prompt :: "json option"
  output_format :: json
  safety_tolerance :: json
  image_prompt_strength :: json

record ReplicateRequest =
  input :: ReplicateInput

record ReplicateResponse =
  id' :: string
  status :: string
  output' :: "string list option"
  error :: "string option"

text \<open>
  What \<open>fetch\<close> resolves to: the \<open>ok\<close> flag, the status line, the body text, and what
  \<open>response.json()\<close> gives (\<open>Inl\<close>: the message of the error it rejects with).
\<close>

record http_response =
  ok :: bool
  status_code :: nat
  statusText :: string
  body_text :: string
  body_json :: "string + ReplicateResponse"

datatype fetch_outcome =
    Rejected string
  | Responded http_response

text \<open>
  The remote service as this program sees it: the answer to the one POST, given the body
  sent, and the answer to the \<open>n\<close>-th GET (counted from 0) for a prediction id.
\<close>

record remote =
  create_outcome :: "json \<Rightarrow> fetch_outcome"
  poll_outcome :: "string \<Rightarrow> nat \<Rightarrow> fetch_outcome"

text \<open>The effects of one invocation, in order. \<open>Create\<close> carries the body of the POST.\<close>

datatype event =
    Create json
  | Poll string
  | Sleep nat

datatype content_item = TextContent string

record ToolResult =
  content :: "content_item list"
  isError :: bool

section \<open>Helpers for messages\<close>

definition digit_char :: "nat \<Rightarrow> char" where
  "digit_char d = char_of (48 + d)"

fun string_of_nat :: "nat \<Rightarrow> string" where
  "string_of_nat n =
     (if n < 10 then [digit_char n]
      else string_of_nat (n div 10) @ [digit_char (n mod 10)])"

declare string_of_nat.simps [simp del]

text \<open>The message of both \<open>!response.ok\<close> branches.\<close>

definition api_error :: "http_response \<Rightarrow> string" where
  "api_error r =
     ''Replicate API error: '' @ string_of_nat (status_code r) @ '' '' @ statusText r
       @ [CHR 0x0A] @ body_text r"

fun starts_with :: "string \<Rightarrow> string \<Rightarrow> bool" where
  "starts_with s [] = True"
| "starts_with [] (p # ps) = False"
| "starts_with (c # cs) (p # ps) = (c = p \<and> starts_with cs ps)"

fun contains_str :: "string \<Rightarrow> string \<Rightarrow> bool" where
  "contains_str [] p = (p = [])"
| "contains_str (c # cs) p = (starts_with (c # cs) p \<or> contains_str cs p)"

section \<open>The job runner\<close>

definition MAX_ATTEMPTS :: nat where
  "MAX_ATTEMPTS = 60"

definition POLL_INTERVAL :: nat where
  "POLL_INTERVAL = 2000"

definition polls_made :: "event list \<Rightarrow> nat" where
  "polls_made tr = length (filter (\<lambda>e. case e of Poll p \<Rightarrow> True | _ \<Rightarrow> False) tr)"

definition sleeps_made :: "event list \<Rightarrow> nat" where
  "sleeps_made tr = length (filter (\<lambda>e. case e of Sleep ms \<Rightarrow> True | _ \<Rightarrow> False) tr)"

text \<open>
  \<open>getPredictionStatus\<close>: one GET, logged; a thrown error is \<open>Inl\<close> of its message.
\<close>

definition getPredictionStatus ::
  "remote \<Rightarrow> string \<Rightarrow> event list \<Rightarrow> (string + ReplicateResponse) \<times> event list" where
  "getPredictionStatus env pid tr =
     (case poll_outcome env pid (polls_made tr) of
        Rejected m \<Rightarrow> (Inl m, tr @ [Poll pid])
      | Responded r \<Rightarrow>
          if \<not> ok r then (Inl (api_error r), tr @ [Poll pid])
          else (body_json r, tr @ [Poll pid]))"

text \<open>The \<open>while (attempts < MAX_ATTEMPTS)\<close> loop and the throw that follows it.\<close>

function poll_loop ::
  "remote \<Rightarrow> string \<Rightarrow> nat \<Rightarrow> event list \<Rightarrow> (string + string) \<times> event list" where
  "poll_loop env pid attempts tr =
     (if attempts < MAX_ATTEMPTS then
        (case getPredictionStatus env pid tr of
           (Inl e, tr1) \<Rightarrow> (Inl e, tr1)
         | (Inr st, tr1) \<Rightarrow>
             (case error st of
                Some (c # cs) \<Rightarrow> (Inl (''Replicate API error: '' @ c # cs), tr1)
              | _ \<Rightarrow>
                 (case (status st = ''succeeded'', output' st) of
                    (True, Some (u # us)) \<Rightarrow> (Inr u, tr1)
                  | _ \<Rightarrow>
                     if status st = ''failed'' then (Inl ''Image generation failed'', tr1)
                     else poll_loop env pid (attempts + 1) (tr1 @ [Sleep POLL_INTERVAL]))))
      else (Inl ''Timeout waiting for image generation'', tr))"
  by pat_completeness auto
termination
  by (relation "measure (\<lambda>(env, pid, attempts, tr). MAX_ATTEMPTS - attempts)") auto

declare poll_loop.simps [simp del]

definition request_body :: "json \<Rightarrow> ReplicateRequest" where
  "request_body params =
     \<lparr>input =
        \<lparr>prompt = get_prop params ''prompt'',
         raw = nullish (get_prop params ''raw'') (JBool False),
         seed = get_prop params ''seed'',
         aspect_ratio = nullish (get_prop params ''aspect_ratio'') (JStr ''1:1''),
         image_prompt = get_prop params ''image_prompt'',
         output_format = nullish (get_prop params ''output_format'') (JStr ''jpg''),
         safety_tolerance = nullish (get_prop params ''safety_tolerance'') (JNum (Finite 2)),
         image_prompt_strength =
           nullish (get_prop params ''image_prompt_strength'') (JNum (Finite (1 / 10)))\<rparr>\<rparr>"

text \<open>
  \<open>JSON.stringify\<close>. The text it writes is represented by the JSON document that text
  denotes. A value is written as it is, at every depth, except that an infinity is
  written as \<open>null\<close> and the negative zero as \<open>0\<close>; a property holding \<open>undefined\<close> is left
  out; the properties keep the order of the object literal.
\<close>

fun sent_number :: "jsnum \<Rightarrow> json" where
  "sent_number (Finite q) = JNum (Finite q)"
| "sent_number NegZero = JNum (Finite 0)"
| "sent_number PosInfinity = JNull"
| "sent_number NegInfinity = JNull"

primrec sent_value :: "json \<Rightarrow> json" where
  "sent_value JNull = JNull"
| "sent_value (JBool b) = JBool b"
| "sent_value (JNum n) = sent_number n"
| "sent_value (JStr s) = JStr s"
| "sent_value (JArr xs) = JArr (map sent_value xs)"
| "sent_value (JObj kvs) = JObj (map (map_prod id sent_value) kvs)"

fun sent_prop :: "string \<Rightarrow> json option \<Rightarrow> (string \<times> json) list" where
  "sent_prop k None = []"
| "sent_prop k (Some v) = [(k, sent_value v)]"

definition JSON_stringify :: "ReplicateRequest \<Rightarrow> json" where
  "JSON_stringify b =
     JObj [(''input'',
            JObj (sent_prop ''prompt'' (prompt (input b)) @
                  [(''raw'', sent_value (raw (input b)))] @
                  sent_prop ''seed'' (seed (input b)) @
                  [(''aspect_ratio'', sent_value (aspect_ratio (input b)))] @
                  sent_prop ''image_prompt'' (image_prompt (input b)) @
                  [(''output_format'', sent_value (output_format (input b))),
                   (''safety_tolerance'', sent_value (safety_tolerance (input b))),
                   (''image_prompt_strength'',
                    sent_value (image_prompt_strength (input b)))]))]"

definition generateImage :: "remote \<Rightarrow> json \<Rightarrow> (string + string) \<times> event list" where
  "generateImage env params =
     (let requestBody = request_body params;
          body = JSON_stringify requestBody;
          tr = [Create body]
      in case create_outcome env body of
           Rejected m \<Rightarrow> (Inl m, tr)
         | Responded r \<Rightarrow>
             if \<not> ok r then (Inl (api_error r), tr)
             else (case body_json r of
                     Inl m \<Rightarrow> (Inl m, tr)
                   | Inr prediction \<Rightarrow> poll_loop env (id' prediction) 0 tr))"

section \<open>The tool-call handler\<close>

definition isReplicateArgs :: "json \<Rightarrow> bool" where
  "isReplicateArgs args =
     (js_typeof args = ''object'' \<and> args \<noteq> JNull \<and> has_prop args ''prompt'' \<and>
      (case get_prop args ''prompt'' of
         None \<Rightarrow> False
       | Some v \<Rightarrow> js_typeof v = ''string''))"

text \<open>The body of the \<open>try\<close> block: \<open>Inl\<close> is a thrown error's message.\<close>

definition call_tool_try ::
  "remote \<Rightarrow> string \<Rightarrow> json option \<Rightarrow> (string + ToolResult) \<times> event list" where
  "call_tool_try env name args =
     (case args of
        None \<Rightarrow> (Inl ''No arguments provided'', [])
      | Some a \<Rightarrow>
          if \<not> truthy a then (Inl ''No arguments provided'', [])
          else if name = ''replicate_image_generate'' then
            (if \<not> isReplicateArgs a then
               (Inl ''Invalid arguments for replicate_image_generate'', [])
             else
               (case generateImage env a of
                  (Inl e, tr) \<Rightarrow> (Inl e, tr)
                | (Inr imageUrl, tr) \<Rightarrow>
                    (Inr \<lparr>content = [TextContent (''Generated image URL: '' @ imageUrl)],
                          isError = False\<rparr>, tr)))
          else
            (Inr \<lparr>content = [TextContent (''Unknown tool: '' @ name)], isError = True\<rparr>, []))"

text \<open>The handler: the \<open>try\<close> block and its \<open>catch\<close>.\<close>

definition call_tool :: "remote \<Rightarrow> string \<Rightarrow> json option \<Rightarrow> ToolResult \<times> event list" where
  "call_tool env name args =
     (case call_tool_try env name args of
        (Inr res, tr) \<Rightarrow> (res, tr)
      | (Inl msg, tr) \<Rightarrow>
          (\<lparr>content = [TextContent (''Error: '' @ msg)], isError = True\<rparr>, tr))"

section \<open>Vocabulary of the properties\<close>

text \<open>The single text of a result.\<close>

definition result_text :: "ToolResult \<Rightarrow> string" where
  "result_text res = (case content res of [TextContent t] \<Rightarrow> t | _ \<Rightarrow> [])"

text \<open>The POST was answered with a success status and a prediction carrying this id.\<close>

definition job_created :: "remote \<Rightarrow> json \<Rightarrow> string \<Rightarrow> bool" where
  "job_created env params pid =
     (case create_outcome env (JSON_stringify (request_body params)) of
        Rejected m \<Rightarrow> False
      | Responded r \<Rightarrow>
          ok r \<and> (case body_json r of Inl m \<Rightarrow> False | Inr prediction \<Rightarrow> id' prediction = pid))"

text \<open>A property of the \<open>input\<close> object of a body sent; \<open>None\<close> when it is left out.\<close>

definition sent_field :: "json \<Rightarrow> string \<Rightarrow> json option" where
  "sent_field body k =
     (case get_prop body ''input'' of None \<Rightarrow> None | Some i \<Rightarrow> get_prop i k)"

text \<open>
  A value that holds, at every depth, no number other than a finite one that is not the
  negative zero.
\<close>

fun double_number :: "jsnum \<Rightarrow> bool" where
  "double_number (Finite q) = (\<bar>q\<bar> < 2 ^ 1024)"
| "double_number n = False"

primrec sent_unchanged :: "json \<Rightarrow> bool" where
  "sent_unchanged JNull = True"
| "sent_unchanged (JBool b) = True"
| "sent_unchanged (JNum n) = double_number n"
| "sent_unchanged (JStr s) = True"
| "sent_unchanged (JArr xs) = list_all id (map sent_unchanged xs)"
| "sent_unchanged (JObj kvs) = list_all snd (map (map_prod id sent_unchanged) kvs)"

text \<open>A GET answered with a success status and a prediction with these three fields.\<close>

definition reports ::
  "fetch_outcome \<Rightarrow> string \<Rightarrow> string list option \<Rightarrow> string option \<Rightarrow> bool" where
  "reports f s out err =
     (case f of
        Rejected m \<Rightarrow> False
      | Responded r \<Rightarrow>
          ok r \<and>
          (case body_json r of
             Inl m \<Rightarrow> False
           | Inr st \<Rightarrow> status st = s \<and> output' st = out \<and> error st = err))"

text \<open>
  A GET after which the loop sleeps and goes on: answered with a success status, a body
  that parses, no non-empty \<open>error\<close>, not \<open>succeeded\<close> with an output, not \<open>failed\<close>.
\<close>

definition in_progress :: "fetch_outcome \<Rightarrow> bool" where
  "in_progress f =
     (case f of
        Rejected m \<Rightarrow> False
      | Responded r \<Rightarrow>
          ok r \<and>
          (case body_json r of
             Inl m \<Rightarrow> False
           | Inr st \<Rightarrow>
               (case error st of Some (c # cs) \<Rightarrow> False | _ \<Rightarrow> True) \<and>
               \<not> (status st = ''succeeded'' \<and>
                    (case output' st of Some (u # us) \<Rightarrow> True | _ \<Rightarrow> False)) \<and>
               status st \<noteq> ''failed''))"

text \<open>\<open>k\<close> rounds of the loop that did not end it: a status read, then the sleep.\<close>

definition waiting :: "nat \<Rightarrow> string \<Rightarrow> event list" where
  "waiting k pid = concat (replicate k [Poll pid, Sleep POLL_INTERVAL])"

text \<open>
  Every status read of a trace comes directly after a sleep of the poll interval
  (\<open>prev\<close> is the event before the list, if any).
\<close>

fun polls_after_sleep :: "event option \<Rightarrow> event list \<Rightarrow> bool" where
  "polls_after_sleep prev [] = True"
| "polls_after_sleep prev (Poll p # es) =
     (prev = Some (Sleep POLL_INTERVAL) \<and> polls_after_sleep (Some (Poll p)) es)"
| "polls_after_sleep prev (Create b # es) = polls_after_sleep (Some (Create b)) es"
| "polls_after_sleep prev (Sleep ms # es) = polls_after_sleep (Some (Sleep ms)) es"

section \<open>Scripted remote services\<close>

definition prediction :: "string \<Rightarrow> string list option \<Rightarrow> string option \<Rightarrow> ReplicateResponse" where
  "prediction s out err = \<lparr>id' = ''p1'', status = s, output' = out, error = err\<rparr>"

definition http_ok :: "ReplicateResponse \<Rightarrow> fetch_outcome" where
  "http_ok st =
     Responded \<lparr>ok = True, status_code = 200, statusText = ''OK'', body_text = [],
                body_json = Inr st\<rparr>"

definition http_500 :: fetch_outcome where
  "http_500 =
     Responded \<lparr>ok = False, status_code = 500, statusText = ''Internal Server Error'',
                body_text = ''oops'', body_json = Inl ''Unexpected token''\<rparr>"

text \<open>A remote whose POST answers \<open>c\<close> and whose \<open>n\<close>-th GET answers \<open>p n\<close>.\<close>

definition scripted :: "fetch_outcome \<Rightarrow> (nat \<Rightarrow> fetch_outcome) \<Rightarrow> remote" where
  "scripted c p = \<lparr>create_outcome = (\<lambda>b. c), poll_outcome = (\<lambda>pid. p)\<rparr>"

definition started :: fetch_outcome where
  "started = http_ok (prediction ''starting'' None None)"

definition processing :: fetch_outcome where
  "processing = http_ok (prediction ''processing'' None None)"

definition args_cat :: json where
  "args_cat = JObj [(''prompt'', JStr ''a cat'')]"

definition env_failed_with_error :: remote where
  "env_failed_with_error =
     scripted started (\<lambda>n. http_ok (prediction ''failed'' None (Some ''boom'')))"

definition env_failed :: remote where
  "env_failed =
     scripted started
       (\<lambda>n. if n < 2 then processing else http_ok (prediction ''failed'' None None))"

definition env_succeeded_with_error :: remote where
  "env_succeeded_with_error =
     scripted started
       (\<lambda>n. http_ok (prediction ''succeeded'' (Some [''https://x/img.jpg'']) (Some ''boom'')))"

definition env_three_then_succeeded :: remote where
  "env_three_then_succeeded =
     scripted started
       (\<lambda>n. if n < 3 then processing
            else http_ok (prediction ''succeeded'' (Some [''https://x/img.jpg'', ''https://x/2.jpg'']) None))"

definition env_three_then_one :: remote where
  "env_three_then_one =
     scripted started
       (\<lambda>n. if n < 3 then processing
            else http_ok (prediction ''succeeded'' (Some [''https://x/img.jpg'']) None))"

definition env_processing :: remote where
  "env_processing = scripted started (\<lambda>n. processing)"

definition env_succeeded_empty :: remote where
  "env_succeeded_empty =
     scripted started
       (\<lambda>n. http_ok (prediction ''succeeded'' (if even n then None else Some []) None))"

definition env_create_500 :: remote where
  "env_create_500 = scripted http_500 (\<lambda>n. processing)"

definition env_poll_500 :: remote where
  "env_poll_500 = scripted started (\<lambda>n. if n < 2 then processing else http_500)"

definition args_raw_null :: json where
  "args_raw_null = JObj [(''prompt'', JStr ''a cat''), (''raw'', JNull)]"

definition args_full :: json where
  "args_full =
     JObj [(''prompt'', JStr ''a cat''), (''raw'', JBool True), (''seed'', JNum (Finite 7)),
           (''aspect_ratio'', JStr ''7:5''), (''image_prompt'', JStr ''not a uri''),
           (''output_format'', JStr ''gif''), (''safety_tolerance'', JNum (Finite 99)),
           (''image_prompt_strength'', JStr ''high'')]"

definition args_infinite :: json where
  "args_infinite =
     JObj [(''prompt'', JStr ''a cat''), (''seed'', JNum NegZero),
           (''safety_tolerance'', JNum PosInfinity),
           (''image_prompt_strength'', JArr [JNum NegInfinity, JNum (Finite 1)])]"

definition args_empty_prompt :: json where
  "args_empty_prompt = JObj [(''prompt'', JStr [])]"

definition args_no_prompt :: json where
  "args_no_prompt = JObj [(''seed'', JNum (Finite 7))]"

definition args_numeric_prompt :: json where
  "args_numeric_prompt = JObj [(''prompt'', JNum (Finite 5))]"

section \<open>Supporting lemmas\<close>


subsection \<open>Facts about traces\<close>

lemma polls_made_simps [simp]:
  "polls_made [] = 0"
  "polls_made (Create b # tr) = polls_made tr"
  "polls_made (Poll p # tr) = Suc (polls_made tr)"
  "polls_made (Sleep n # tr) = polls_made tr"
  "polls_made (tr @ tr') = polls_made tr + polls_made tr'"
  by (simp_all add: polls_made_def)

lemma sleeps_made_simps [simp]:
  "sleeps_made [] = 0"
  "sleeps_made (Create b # tr) = sleeps_made tr"
  "sleeps_made (Poll p # tr) = sleeps_made tr"
  "sleeps_made (Sleep n # tr) = Suc (sleeps_made tr)"
  "sleeps_made (tr @ tr') = sleeps_made tr + sleeps_made tr'"
  by (simp_all add: sleeps_made_def)

lemma waiting_0 [simp]: "waiting 0 pid = []"
  by (simp add: waiting_def)

lemma waiting_Suc: "waiting (Suc k) pid = Poll pid # Sleep POLL_INTERVAL # waiting k pid"
  by (simp add: waiting_def)

lemma waiting_snoc: "waiting (Suc k) pid = waiting k pid @ [Poll pid, Sleep POLL_INTERVAL]"
  by (induction k) (simp_all add: waiting_def)

lemma polls_made_waiting [simp]: "polls_made (waiting k pid) = k"
  by (induction k) (simp_all add: waiting_Suc)

lemma sleeps_made_waiting [simp]: "sleeps_made (waiting k pid) = k"
  by (induction k) (simp_all add: waiting_Suc)

subsection \<open>One round of the loop\<close>

lemma poll_loop_step:
  assumes "attempts < MAX_ATTEMPTS" and "in_progress (poll_outcome env pid (polls_made tr))"
  shows "poll_loop env pid attempts tr =
         poll_loop env pid (Suc attempts) (tr @ [Poll pid, Sleep POLL_INTERVAL])"
  using assms
  by (subst poll_loop.simps)
     (auto simp: getPredictionStatus_def in_progress_def
           split: fetch_outcome.splits sum.splits option.splits list.splits bool.splits)

lemma poll_loop_wait:
  assumes "\<forall>i<k. in_progress (poll_outcome env pid (polls_made tr + i))"
      and "attempts + k \<le> MAX_ATTEMPTS"
  shows "poll_loop env pid attempts tr = poll_loop env pid (attempts + k) (tr @ waiting k pid)"
  using assms
proof (induction k)
  case 0
  then show ?case by simp
next
  case (Suc k)
  have "poll_loop env pid attempts tr = poll_loop env pid (attempts + k) (tr @ waiting k pid)"
    using Suc by simp
  also have "\<dots> = poll_loop env pid (Suc (attempts + k))
                     ((tr @ waiting k pid) @ [Poll pid, Sleep POLL_INTERVAL])"
    using Suc.prems by (intro poll_loop_step) simp_all
  finally show ?case by (simp add: waiting_snoc)
qed

lemma poll_loop_exhausted:
  "poll_loop env pid MAX_ATTEMPTS tr = (Inl ''Timeout waiting for image generation'', tr)"
  by (subst poll_loop.simps) simp

lemma poll_loop_http_error:
  assumes "attempts < MAX_ATTEMPTS"
      and "poll_outcome env pid (polls_made tr) = Responded r" and "\<not> ok r"
  shows "poll_loop env pid attempts tr = (Inl (api_error r), tr @ [Poll pid])"
  using assms by (subst poll_loop.simps) (simp add: getPredictionStatus_def)

lemma poll_loop_error_field:
  assumes "attempts < MAX_ATTEMPTS"
      and "reports (poll_outcome env pid (polls_made tr)) s out (Some (c # cs))"
  shows "poll_loop env pid attempts tr =
         (Inl (''Replicate API error: '' @ c # cs), tr @ [Poll pid])"
  using assms
  by (subst poll_loop.simps)
     (auto simp: getPredictionStatus_def reports_def split: fetch_outcome.splits sum.splits)

lemma poll_loop_succeeded:
  assumes "attempts < MAX_ATTEMPTS"
      and "reports (poll_outcome env pid (polls_made tr)) ''succeeded'' (Some (u # us)) err"
      and "err = None \<or> err = Some []"
  shows "poll_loop env pid attempts tr = (Inr u, tr @ [Poll pid])"
  using assms
  by (subst poll_loop.simps)
     (auto simp: getPredictionStatus_def reports_def split: fetch_outcome.splits sum.splits)

lemma poll_loop_failed:
  assumes "attempts < MAX_ATTEMPTS"
      and "reports (poll_outcome env pid (polls_made tr)) ''failed'' out err"
      and "err = None \<or> err = Some []"
  shows "poll_loop env pid attempts tr = (Inl ''Image generation failed'', tr @ [Poll pid])"
  using assms
  by (subst poll_loop.simps)
     (auto simp: getPredictionStatus_def reports_def
           split: fetch_outcome.splits sum.splits option.splits list.splits bool.splits)

subsection \<open>From the POST to the \<open>k\<close>-th status read\<close>

lemma generateImage_created:
  assumes "job_created env params pid"
  shows "generateImage env params = poll_loop env pid 0 [Create (JSON_stringify (request_body params))]"
  using assms
  by (auto simp: generateImage_def job_created_def Let_def
           split: fetch_outcome.splits sum.splits)

lemma generateImage_reach:
  assumes "job_created env params pid"
      and "\<forall>i<k. in_progress (poll_outcome env pid i)"
      and "k \<le> MAX_ATTEMPTS"
  shows "generateImage env params =
         poll_loop env pid k (Create (JSON_stringify (request_body params)) # waiting k pid)"
  using assms poll_loop_wait [of k env pid "[Create (JSON_stringify (request_body params))]" 0]
  by (simp add: generateImage_created)

subsection \<open>The handler on valid arguments\<close>

lemma isReplicateArgs_truthy: "isReplicateArgs a \<Longrightarrow> truthy a"
  by (cases a) (simp_all add: isReplicateArgs_def)

lemma call_tool_valid:
  assumes "isReplicateArgs a"
  shows "call_tool env ''replicate_image_generate'' (Some a) =
         (case generateImage env a of
            (Inl e, tr) \<Rightarrow> (\<lparr>content = [TextContent (''Error: '' @ e)], isError = True\<rparr>, tr)
          | (Inr u, tr) \<Rightarrow>
              (\<lparr>content = [TextContent (''Generated image URL: '' @ u)], isError = False\<rparr>, tr))"
  using assms isReplicateArgs_truthy [OF assms]
  by (simp add: call_tool_def call_tool_try_def split: prod.splits sum.splits)

subsection \<open>The scripted remotes\<close>

lemma scripted_simps [simp]:
  "create_outcome (scripted c p) b = c"
  "poll_outcome (scripted c p) pid n = p n"
  by (simp_all add: scripted_def)

lemma job_created_started [simp]: "job_created (scripted started p) a ''p1''"
  by (simp add: job_created_def started_def http_ok_def prediction_def)

lemma reports_http_ok [simp]:
  "reports (http_ok (prediction s out err)) s' out' err' \<longleftrightarrow> s = s' \<and> out = out' \<and> err = err'"
  by (auto simp: reports_def http_ok_def prediction_def)

lemma in_progress_processing [simp]: "in_progress processing"
  by (simp add: in_progress_def processing_def http_ok_def prediction_def)

lemma isReplicateArgs_args_cat [simp]: "isReplicateArgs args_cat"
  by (simp add: isReplicateArgs_def args_cat_def)

lemma MAX_ATTEMPTS_pos [simp]: "0 < MAX_ATTEMPTS" "2 < MAX_ATTEMPTS" "3 < MAX_ATTEMPTS"
  by (simp_all add: MAX_ATTEMPTS_def)

section \<open>A prediction reported as failed\<close>

text \<open>
  C1, as stated, at a concrete run: the first status read reports \<open>failed\<close> together with
  the error text \<open>boom\<close>. The loop tests \<open>status.error\<close> before the status, so the
  invocation fails with the message built from the error text, not with
  \<open>Image generation failed\<close>.
\<close>

theorem failed_with_error_counterexample:
  "reports (poll_outcome env_failed_with_error ''p1'' 0) ''failed'' None (Some ''boom'') \<and>
   fst (generateImage env_failed_with_error args_cat) = Inl ''Replicate API error: boom'' \<and>
   fst (generateImage env_failed_with_error args_cat) \<noteq> Inl ''Image generation failed'' \<and>
   result_text (fst (call_tool env_failed_with_error ''replicate_image_generate'' (Some args_cat)))
     = ''Error: Replicate API error: boom''"

proof -
  have r: "reports (poll_outcome env_failed_with_error ''p1'' 0) ''failed'' None (Some ''boom'')"
    by (simp add: env_failed_with_error_def)
  have g: "generateImage env_failed_with_error args_cat =
           (Inl ''Replicate API error: boom'', [Create (JSON_stringify (request_body args_cat)), Poll ''p1''])"
    using poll_loop_error_field [of 0 env_failed_with_error "''p1''" "[Create (JSON_stringify (request_body args_cat))]"
                                    "''failed''" None "CHR ''b''" "''oom''"] r
    by (simp add: generateImage_created [of _ _ "''p1''"] env_failed_with_error_def)
  show ?thesis
    using r g by (simp add: call_tool_valid result_text_def)
qed

text \<open>
  C1 (amended): when the status read that ends the wait reports \<open>failed\<close>, the invocation
  fails after that read with no further remote call; the message is
  \<open>Image generation failed\<close> when the error field is absent or empty, and
  \<open>Replicate API error: <error>\<close> when the error field is a non-empty string. The
  tool result carries the message after \<open>Error: \<close> with \<open>isError\<close> set.
\<close>

theorem failed_status_message:
  assumes "isReplicateArgs a"
      and "job_created env a pid"
      and "k < MAX_ATTEMPTS"
      and "\<forall>i<k. in_progress (poll_outcome env pid i)"
      and "reports (poll_outcome env pid k) ''failed'' out err"
  shows "call_tool env ''replicate_image_generate'' (Some a) =
         (\<lparr>content =
             [TextContent
               (''Error: '' @
                (case err of
                   Some (c # cs) \<Rightarrow> ''Replicate API error: '' @ c # cs
                 | _ \<Rightarrow> ''Image generation failed''))],
           isError = True\<rparr>,
          Create (JSON_stringify (request_body a)) # waiting k pid @ [Poll pid])"
proof -
  let ?tr = "Create (JSON_stringify (request_body a)) # waiting k pid"
  have reach: "generateImage env a = poll_loop env pid k ?tr"
    using assms by (intro generateImage_reach) simp_all
  have at: "polls_made ?tr = k" by simp
  show ?thesis
  proof (cases "err = None \<or> err = Some []")
    case True
    then have "poll_loop env pid k ?tr = (Inl ''Image generation failed'', ?tr @ [Poll pid])"
      using assms(3,5) at by (intro poll_loop_failed [where out = out and err = err]) simp_all
    with True reach show ?thesis
      by (auto simp: call_tool_valid [OF assms(1)])
  next
    case False
    then obtain c cs where e: "err = Some (c # cs)"
      by (cases err) (auto simp: neq_Nil_conv)
    then have "poll_loop env pid k ?tr =
               (Inl (''Replicate API error: '' @ c # cs), ?tr @ [Poll pid])"
      using assms(3,5) at by (intro poll_loop_error_field [where s = "''failed''" and out = out]) simp_all
    with e reach show ?thesis
      by (simp add: call_tool_valid [OF assms(1)])
  qed
qed

text \<open>Two \<open>processing\<close> reads, then \<open>failed\<close> with no error field.\<close>

theorem failed_status_message_witness:
  "call_tool env_failed ''replicate_image_generate'' (Some args_cat) =
     (\<lparr>content = [TextContent ''Error: Image generation failed''], isError = True\<rparr>,
      Create (JSON_stringify (request_body args_cat)) # waiting 2 ''p1'' @ [Poll ''p1''])"
  using failed_status_message [of args_cat env_failed "''p1''" 2 None None]
  by (simp add: env_failed_def)

section \<open>The attempt budget\<close>

lemma poll_loop_round:
  assumes "attempts < MAX_ATTEMPTS"
  shows "poll_loop env pid attempts tr =
           poll_loop env pid (Suc attempts) (tr @ [Poll pid, Sleep POLL_INTERVAL]) \<or>
         snd (poll_loop env pid attempts tr) = tr @ [Poll pid]"
  using assms
  by (subst (1 3) poll_loop.simps)
     (auto simp: getPredictionStatus_def
           split: fetch_outcome.splits sum.splits option.splits list.splits bool.splits)

lemma poll_loop_trace:
  "\<exists>n. snd (poll_loop env pid attempts tr) = tr @ take n (waiting (MAX_ATTEMPTS - attempts) pid)"
proof (induction "MAX_ATTEMPTS - attempts" arbitrary: attempts tr)
  case 0
  then have "poll_loop env pid attempts tr = (Inl ''Timeout waiting for image generation'', tr)"
    by (subst poll_loop.simps) simp
  then show ?case by simp
next
  case (Suc m)
  then have lt: "attempts < MAX_ATTEMPTS" and m: "m = MAX_ATTEMPTS - Suc attempts"
    by simp_all
  have w: "waiting (MAX_ATTEMPTS - attempts) pid = Poll pid # Sleep POLL_INTERVAL # waiting m pid"
    using Suc(2) [symmetric] by (simp add: waiting_Suc)
  from poll_loop_round [OF lt, of env pid tr] show ?case
  proof
    assume go: "poll_loop env pid attempts tr =
                poll_loop env pid (Suc attempts) (tr @ [Poll pid, Sleep POLL_INTERVAL])"
    from Suc(1) [OF m, of "tr @ [Poll pid, Sleep POLL_INTERVAL]"]
    obtain n where "snd (poll_loop env pid (Suc attempts) (tr @ [Poll pid, Sleep POLL_INTERVAL])) =
                    (tr @ [Poll pid, Sleep POLL_INTERVAL]) @ take n (waiting m pid)"
      using m by auto
    then have "snd (poll_loop env pid attempts tr) =
               tr @ take (Suc (Suc n)) (waiting (MAX_ATTEMPTS - attempts) pid)"
      using go w by simp
    then show ?thesis by blast
  next
    assume "snd (poll_loop env pid attempts tr) = tr @ [Poll pid]"
    then have "snd (poll_loop env pid attempts tr) =
               tr @ take 1 (waiting (MAX_ATTEMPTS - attempts) pid)"
      using w by simp
    then show ?thesis by blast
  qed
qed

lemma generateImage_trace:
  "\<exists>pid n. snd (generateImage env a) = take n (Create (JSON_stringify (request_body a)) # waiting MAX_ATTEMPTS pid)"
proof (cases "\<exists>pid. job_created env a pid")
  case True
  then obtain pid where c: "job_created env a pid" ..
  obtain n where "snd (poll_loop env pid 0 [Create (JSON_stringify (request_body a))]) =
                  [Create (JSON_stringify (request_body a))] @ take n (waiting (MAX_ATTEMPTS - 0) pid)"
    using poll_loop_trace [of env pid 0 "[Create (JSON_stringify (request_body a))]"] by blast
  then have "snd (generateImage env a) = take (Suc n) (Create (JSON_stringify (request_body a)) # waiting MAX_ATTEMPTS pid)"
    using c by (simp add: generateImage_created)
  then show ?thesis by blast
next
  case False
  then have "snd (generateImage env a) = [Create (JSON_stringify (request_body a))]"
    by (auto simp: generateImage_def job_created_def Let_def
             split: fetch_outcome.splits sum.splits)
  then have "snd (generateImage env a) = take 1 (Create (JSON_stringify (request_body a)) # waiting MAX_ATTEMPTS [])"
    by simp
  then show ?thesis by blast
qed

lemma call_tool_trace:
  "snd (call_tool env name args) = [] \<or>
   (\<exists>a. args = Some a \<and> snd (call_tool env name args) = snd (generateImage env a))"
  by (auto simp: call_tool_def call_tool_try_def split: option.splits prod.splits sum.splits)

lemma polls_made_take: "polls_made (take n tr) \<le> polls_made tr"
proof -
  have "polls_made tr = polls_made (take n tr) + polls_made (drop n tr)"
    by (metis append_take_drop_id polls_made_simps(5))
  then show ?thesis by simp
qed

lemma polls_made_rounds [simp]: "polls_made (concat (replicate k [Poll p, Sleep ms])) = k"
  by (induction k) simp_all

lemma sleeps_made_rounds [simp]: "sleeps_made (concat (replicate k [Poll p, Sleep ms])) = k"
  by (induction k) simp_all

lemma generateImage_timeout:
  assumes "job_created env a pid"
      and "\<forall>i<MAX_ATTEMPTS. in_progress (poll_outcome env pid i)"
  shows "generateImage env a =
         (Inl ''Timeout waiting for image generation'',
          Create (JSON_stringify (request_body a)) # waiting MAX_ATTEMPTS pid)"
  using generateImage_reach [OF assms(1), of MAX_ATTEMPTS] assms(2)
  by (simp add: poll_loop_exhausted)

text \<open>
  C3: no invocation makes more than 60 status reads, and its trace is always an initial
  part of: the POST, then 60 times a status read followed by a sleep of 2000 ms. When
  the 60 reads all find the job in progress, the invocation ends with the timeout error
  (\<open>isError\<close> set) after exactly 60 reads: there is no 61st.
\<close>

theorem poll_budget:
  "polls_made (snd (call_tool env name args)) \<le> 60 \<and>
   (\<exists>b pid n. snd (call_tool env name args) =
        take n (Create b # concat (replicate 60 [Poll pid, Sleep 2000]))) \<and>
   (isReplicateArgs a \<and> job_created env a pid \<and> (\<forall>i<60. in_progress (poll_outcome env pid i)) \<longrightarrow>
      call_tool env ''replicate_image_generate'' (Some a) =
        (\<lparr>content = [TextContent ''Error: Timeout waiting for image generation''],
          isError = True\<rparr>,
         Create (JSON_stringify (request_body a)) # concat (replicate 60 [Poll pid, Sleep 2000])) \<and>
      polls_made (snd (call_tool env ''replicate_image_generate'' (Some a))) = 60)"
proof -
  have w: "concat (replicate 60 [Poll p, Sleep 2000]) = waiting MAX_ATTEMPTS p" for p
    by (simp add: waiting_def MAX_ATTEMPTS_def POLL_INTERVAL_def)
  have shape: "\<exists>b pid n. snd (call_tool env name args) = take n (Create b # waiting MAX_ATTEMPTS pid)"
  proof -
    from call_tool_trace [of env name args] show ?thesis
    proof
      assume "snd (call_tool env name args) = []"
      then have "snd (call_tool env name args) = take 0 (Create (JSON_stringify (request_body JNull)) # waiting MAX_ATTEMPTS [])"
        by simp
      then show ?thesis by blast
    next
      assume "\<exists>a. args = Some a \<and> snd (call_tool env name args) = snd (generateImage env a)"
      then show ?thesis using generateImage_trace by metis
    qed
  qed
  then obtain b p n where "snd (call_tool env name args) = take n (Create b # waiting MAX_ATTEMPTS p)"
    by blast
  then have "polls_made (snd (call_tool env name args)) \<le> polls_made (Create b # waiting MAX_ATTEMPTS p)"
    using polls_made_take [of n "Create b # waiting MAX_ATTEMPTS p"] by simp
  then have bound: "polls_made (snd (call_tool env name args)) \<le> 60"
    by (simp add: MAX_ATTEMPTS_def)
  have timeout: "call_tool env ''replicate_image_generate'' (Some a) =
        (\<lparr>content = [TextContent ''Error: Timeout waiting for image generation''],
          isError = True\<rparr>,
         Create (JSON_stringify (request_body a)) # waiting MAX_ATTEMPTS pid)"
    if "isReplicateArgs a" "job_created env a pid" "\<forall>i<60. in_progress (poll_outcome env pid i)"
    using that generateImage_timeout [of env a pid]
    by (simp add: call_tool_valid MAX_ATTEMPTS_def)
  show ?thesis
    using bound shape timeout by (auto simp: w MAX_ATTEMPTS_def)
qed

text \<open>A remote that answers \<open>processing\<close> to every status read.\<close>

theorem poll_budget_witness:
  "call_tool env_processing ''replicate_image_generate'' (Some args_cat) =
     (\<lparr>content = [TextContent ''Error: Timeout waiting for image generation''],
       isError = True\<rparr>,
      Create (JSON_stringify (request_body args_cat)) # concat (replicate 60 [Poll ''p1'', Sleep 2000])) \<and>
   polls_made (snd (call_tool env_processing ''replicate_image_generate'' (Some args_cat))) = 60"
  using poll_budget [of env_processing "''replicate_image_generate''" "Some args_cat" args_cat "''p1''"]
  by (simp add: env_processing_def)

section \<open>A prediction reported as succeeded\<close>

text \<open>
  C2, as stated, at a concrete run: the first status read reports \<open>succeeded\<close> with one
  output and the error text \<open>boom\<close>. The error field is tested first, so the job runner
  returns no URI and the tool result is an error.
\<close>

theorem succeeded_with_error_counterexample:
  "reports (poll_outcome env_succeeded_with_error ''p1'' 0)
     ''succeeded'' (Some [''https://x/img.jpg'']) (Some ''boom'') \<and>
   fst (generateImage env_succeeded_with_error args_cat) \<noteq> Inr ''https://x/img.jpg'' \<and>
   fst (call_tool env_succeeded_with_error ''replicate_image_generate'' (Some args_cat)) =
     \<lparr>content = [TextContent ''Error: Replicate API error: boom''], isError = True\<rparr>"
proof -
  have r: "reports (poll_outcome env_succeeded_with_error ''p1'' 0)
             ''succeeded'' (Some [''https://x/img.jpg'']) (Some ''boom'')"
    by (simp add: env_succeeded_with_error_def)
  have g: "generateImage env_succeeded_with_error args_cat =
           (Inl ''Replicate API error: boom'', [Create (JSON_stringify (request_body args_cat)), Poll ''p1''])"
    using poll_loop_error_field [of 0 env_succeeded_with_error "''p1''"
             "[Create (JSON_stringify (request_body args_cat))]" "''succeeded''" "Some [''https://x/img.jpg'']"
             "CHR ''b''" "''oom''"] r
    by (simp add: generateImage_created [of _ _ "''p1''"] env_succeeded_with_error_def)
  show ?thesis
    using r g by (simp add: call_tool_valid)
qed

text \<open>
  C2 (amended): when the status read that ends the wait reports \<open>succeeded\<close> with a
  non-empty output sequence and an absent or empty error field, the job runner returns
  the first URI of the sequence, whatever follows it, and the tool result has \<open>isError\<close>
  unset and the text \<open>Generated image URL: \<close> followed by that URI.
\<close>

theorem first_output_returned:
  assumes "isReplicateArgs a"
      and "job_created env a pid"
      and "k < MAX_ATTEMPTS"
      and "\<forall>i<k. in_progress (poll_outcome env pid i)"
      and "reports (poll_outcome env pid k) ''succeeded'' (Some (u # us)) err"
      and "err = None \<or> err = Some []"
  shows "generateImage env a = (Inr u, Create (JSON_stringify (request_body a)) # waiting k pid @ [Poll pid]) \<and>
         call_tool env ''replicate_image_generate'' (Some a) =
           (\<lparr>content = [TextContent (''Generated image URL: '' @ u)], isError = False\<rparr>,
            Create (JSON_stringify (request_body a)) # waiting k pid @ [Poll pid])"
proof -
  let ?tr = "Create (JSON_stringify (request_body a)) # waiting k pid"
  have "generateImage env a = poll_loop env pid k ?tr"
    using assms by (intro generateImage_reach) simp_all
  moreover have "poll_loop env pid k ?tr = (Inr u, ?tr @ [Poll pid])"
    using assms(3,5,6) by (intro poll_loop_succeeded [where us = us and err = err]) simp_all
  ultimately show ?thesis
    by (simp add: call_tool_valid [OF assms(1)])
qed

text \<open>Three \<open>processing\<close> reads, then \<open>succeeded\<close> with two outputs: the second is dropped.\<close>

theorem first_output_returned_witness:
  "generateImage env_three_then_succeeded args_cat =
     (Inr ''https://x/img.jpg'',
      Create (JSON_stringify (request_body args_cat)) # waiting 3 ''p1'' @ [Poll ''p1'']) \<and>
   call_tool env_three_then_succeeded ''replicate_image_generate'' (Some args_cat) =
     (\<lparr>content = [TextContent ''Generated image URL: https://x/img.jpg''], isError = False\<rparr>,
      Create (JSON_stringify (request_body args_cat)) # waiting 3 ''p1'' @ [Poll ''p1''])"
  using first_output_returned [of args_cat env_three_then_succeeded "''p1''" 3
          "''https://x/img.jpg''" "[''https://x/2.jpg'']" None]
  by (simp add: env_three_then_succeeded_def)

section \<open>Three reads in progress, then success\<close>

lemma waiting_3:
  "waiting 3 pid = [Poll pid, Sleep 2000, Poll pid, Sleep 2000, Poll pid, Sleep 2000]"
  by (simp add: waiting_def numeral_3_eq_3 POLL_INTERVAL_def)

lemma in_progress_reports_processing:
  "reports f ''processing'' out None \<Longrightarrow> in_progress f"
  by (auto simp: reports_def in_progress_def split: fetch_outcome.splits sum.splits)

text \<open>
  C8, as stated, at the run it describes: four status reads are made, but only three
  sleeps, and the first read follows the POST directly, so not every read comes after a
  sleep of 2000 ms.
\<close>

theorem three_then_succeeded_counterexample:
  "polls_made (snd (call_tool env_three_then_one ''replicate_image_generate'' (Some args_cat))) = 4 \<and>
   sleeps_made (snd (call_tool env_three_then_one ''replicate_image_generate'' (Some args_cat))) = 3 \<and>
   \<not> polls_after_sleep None
       (snd (call_tool env_three_then_one ''replicate_image_generate'' (Some args_cat)))"
proof -
  have "generateImage env_three_then_one args_cat =
        poll_loop env_three_then_one ''p1'' 3 (Create (JSON_stringify (request_body args_cat)) # waiting 3 ''p1'')"
    by (intro generateImage_reach) (simp_all add: env_three_then_one_def MAX_ATTEMPTS_def)
  moreover have "poll_loop env_three_then_one ''p1'' 3 (Create (JSON_stringify (request_body args_cat)) # waiting 3 ''p1'') =
        (Inr ''https://x/img.jpg'', (Create (JSON_stringify (request_body args_cat)) # waiting 3 ''p1'') @ [Poll ''p1''])"
    by (intro poll_loop_succeeded [where us = "[]" and err = None])
       (simp_all add: env_three_then_one_def)
  ultimately show ?thesis
    by (simp add: call_tool_valid waiting_3)
qed

text \<open>
  C8 (amended): for three \<open>processing\<close> responses followed by \<open>succeeded\<close> with output
  \<open>https://x/img.jpg\<close>, the result has \<open>isError\<close> unset and the text
  \<open>Generated image URL: https://x/img.jpg\<close>; exactly 4 status reads are made; the first
  follows the POST directly and each of the other three follows one sleep of 2000 ms
  (three sleeps in all).
\<close>

theorem three_then_succeeded:
  assumes "isReplicateArgs a"
      and "job_created env a pid"
      and "\<forall>i<3. reports (poll_outcome env pid i) ''processing'' None None"
      and "reports (poll_outcome env pid 3) ''succeeded'' (Some [''https://x/img.jpg'']) None"
  shows "call_tool env ''replicate_image_generate'' (Some a) =
           (\<lparr>content = [TextContent ''Generated image URL: https://x/img.jpg''],
             isError = False\<rparr>,
            [Create (JSON_stringify (request_body a)),
             Poll pid, Sleep 2000, Poll pid, Sleep 2000, Poll pid, Sleep 2000, Poll pid]) \<and>
         polls_made (snd (call_tool env ''replicate_image_generate'' (Some a))) = 4 \<and>
         sleeps_made (snd (call_tool env ''replicate_image_generate'' (Some a))) = 3"
proof -
  let ?tr = "Create (JSON_stringify (request_body a)) # waiting 3 pid"
  have "\<forall>i<3. in_progress (poll_outcome env pid i)"
    using assms(3) in_progress_reports_processing by blast
  then have "generateImage env a = poll_loop env pid 3 ?tr"
    using assms(2) by (intro generateImage_reach) (simp_all add: MAX_ATTEMPTS_def)
  moreover have "poll_loop env pid 3 ?tr = (Inr ''https://x/img.jpg'', ?tr @ [Poll pid])"
    using assms(4) by (intro poll_loop_succeeded [where us = "[]" and err = None]) simp_all
  ultimately show ?thesis
    by (simp add: call_tool_valid [OF assms(1)] waiting_3)
qed

theorem three_then_succeeded_witness:
  "call_tool env_three_then_one ''replicate_image_generate'' (Some args_cat) =
     (\<lparr>content = [TextContent ''Generated image URL: https://x/img.jpg''], isError = False\<rparr>,
      [Create (JSON_stringify (request_body args_cat)),
       Poll ''p1'', Sleep 2000, Poll ''p1'', Sleep 2000, Poll ''p1'', Sleep 2000, Poll ''p1'']) \<and>
   polls_made (snd (call_tool env_three_then_one ''replicate_image_generate'' (Some args_cat))) = 4 \<and>
   sleeps_made (snd (call_tool env_three_then_one ''replicate_image_generate'' (Some args_cat))) = 3"
  using three_then_succeeded [of args_cat env_three_then_one "''p1''"]
  by (simp add: env_three_then_one_def processing_def)

section \<open>Succeeded without an output\<close>

lemma in_progress_succeeded_no_output:
  "reports f ''succeeded'' None None \<or> reports f ''succeeded'' (Some []) None \<Longrightarrow> in_progress f"
  by (auto simp: reports_def in_progress_def split: fetch_outcome.splits sum.splits)

text \<open>
  C9: a response with status \<open>succeeded\<close>, an absent or empty output sequence and no
  error field counts as in progress: the loop sleeps and reads again. A job whose 60
  reads all give such responses ends in the timeout error, not in success.
\<close>

theorem succeeded_without_output_times_out:
  assumes "isReplicateArgs a"
      and "job_created env a pid"
      and "\<forall>i<60. reports (poll_outcome env pid i) ''succeeded'' None None \<or>
                   reports (poll_outcome env pid i) ''succeeded'' (Some []) None"
  shows "(\<forall>i<60. in_progress (poll_outcome env pid i)) \<and>
         generateImage env a =
           (Inl ''Timeout waiting for image generation'',
            Create (JSON_stringify (request_body a)) # concat (replicate 60 [Poll pid, Sleep 2000])) \<and>
         call_tool env ''replicate_image_generate'' (Some a) =
           (\<lparr>content = [TextContent ''Error: Timeout waiting for image generation''],
             isError = True\<rparr>,
            Create (JSON_stringify (request_body a)) # concat (replicate 60 [Poll pid, Sleep 2000]))"
proof -
  have w: "concat (replicate 60 [Poll pid, Sleep 2000]) = waiting MAX_ATTEMPTS pid"
    by (simp add: waiting_def MAX_ATTEMPTS_def POLL_INTERVAL_def)
  have p: "\<forall>i<60. in_progress (poll_outcome env pid i)"
    using assms(3) in_progress_succeeded_no_output by blast
  then have "generateImage env a =
             (Inl ''Timeout waiting for image generation'',
              Create (JSON_stringify (request_body a)) # waiting MAX_ATTEMPTS pid)"
    using assms(2) by (intro generateImage_timeout) (simp_all add: MAX_ATTEMPTS_def)
  then show ?thesis
    using p by (simp add: call_tool_valid [OF assms(1)] w)
qed

text \<open>A remote whose reads alternate between an absent and an empty output.\<close>

theorem succeeded_without_output_times_out_witness:
  "generateImage env_succeeded_empty args_cat =
     (Inl ''Timeout waiting for image generation'',
      Create (JSON_stringify (request_body args_cat)) # concat (replicate 60 [Poll ''p1'', Sleep 2000])) \<and>
   call_tool env_succeeded_empty ''replicate_image_generate'' (Some args_cat) =
     (\<lparr>content = [TextContent ''Error: Timeout waiting for image generation''],
       isError = True\<rparr>,
      Create (JSON_stringify (request_body args_cat)) # concat (replicate 60 [Poll ''p1'', Sleep 2000]))"
  using succeeded_without_output_times_out [of args_cat env_succeeded_empty "''p1''"]
  by (simp add: env_succeeded_empty_def)

section \<open>Validation of the arguments\<close>

lemma js_typeof_string: "js_typeof v = ''string'' \<longleftrightarrow> (\<exists>s. v = JStr s)"
  by (cases v) simp_all

lemma isReplicateArgs_iff: "isReplicateArgs a \<longleftrightarrow> (\<exists>s. get_prop a ''prompt'' = Some (JStr s))"
  by (cases a) (auto simp: isReplicateArgs_def js_typeof_string split: option.splits)

lemma starts_with_append [simp]: "starts_with (p @ s) p"
  by (induction p) simp_all

text \<open>
  C4, as stated, at a request that names the tool and carries no arguments at all (so no
  prompt): the handler answers \<open>No arguments provided\<close>, and the text does not contain
  \<open>Invalid arguments\<close>.
\<close>

theorem no_arguments_counterexample:
  "call_tool env_processing ''replicate_image_generate'' None =
     (\<lparr>content = [TextContent ''Error: No arguments provided''], isError = True\<rparr>, []) \<and>
   \<not> contains_str
       (result_text (fst (call_tool env_processing ''replicate_image_generate'' None)))
       ''Invalid arguments''"
  by (simp add: call_tool_def call_tool_try_def result_text_def)

text \<open>
  C4 (amended): for every request that names the tool and whose arguments are present
  (truthy) but have no \<open>prompt\<close> or a \<open>prompt\<close> that is not a string, the result has
  \<open>isError\<close> set and the text \<open>Error: Invalid arguments for replicate_image_generate\<close>,
  and no remote call is made. A request without arguments gets \<open>isError\<close> set and the text
  \<open>Error: No arguments provided\<close>, also without any remote call.
\<close>

theorem invalid_arguments_rejected:
  assumes "truthy a"
      and "\<forall>s. get_prop a ''prompt'' \<noteq> Some (JStr s)"
  shows "call_tool env ''replicate_image_generate'' (Some a) =
           (\<lparr>content = [TextContent ''Error: Invalid arguments for replicate_image_generate''],
             isError = True\<rparr>, []) \<and>
         contains_str
           (result_text (fst (call_tool env ''replicate_image_generate'' (Some a))))
           ''Invalid arguments'' \<and>
         call_tool env ''replicate_image_generate'' None =
           (\<lparr>content = [TextContent ''Error: No arguments provided''], isError = True\<rparr>, [])"
proof -
  have "\<not> isReplicateArgs a"
    using assms(2) by (simp add: isReplicateArgs_iff)
  then have "call_tool env ''replicate_image_generate'' (Some a) =
           (\<lparr>content = [TextContent ''Error: Invalid arguments for replicate_image_generate''],
             isError = True\<rparr>, [])"
    using assms(1) by (simp add: call_tool_def call_tool_try_def)
  then show ?thesis
    by (simp add: call_tool_def call_tool_try_def result_text_def)
qed

text \<open>An object without \<open>prompt\<close>, and one whose \<open>prompt\<close> is a number.\<close>

theorem invalid_arguments_rejected_witness:
  "call_tool env_processing ''replicate_image_generate'' (Some args_no_prompt) =
     (\<lparr>content = [TextContent ''Error: Invalid arguments for replicate_image_generate''],
       isError = True\<rparr>, []) \<and>
   call_tool env_processing ''replicate_image_generate'' (Some args_numeric_prompt) =
     (\<lparr>content = [TextContent ''Error: Invalid arguments for replicate_image_generate''],
       isError = True\<rparr>, [])"
  using invalid_arguments_rejected [of args_no_prompt env_processing]
        invalid_arguments_rejected [of args_numeric_prompt env_processing]
  by (simp add: args_no_prompt_def args_numeric_prompt_def)

section \<open>The body of the job-creation call\<close>

lemma set_waiting: "set (waiting k pid) \<subseteq> {Poll pid, Sleep POLL_INTERVAL}"
  by (induction k) (auto simp: waiting_Suc)

lemma generateImage_starts_with_Create:
  "\<exists>rest. snd (generateImage env a) = Create (JSON_stringify (request_body a)) # rest \<and>
          (\<forall>b. Create b \<notin> set rest)"
proof (cases "\<exists>pid. job_created env a pid")
  case True
  then obtain pid where c: "job_created env a pid" ..
  obtain n where "snd (poll_loop env pid 0 [Create (JSON_stringify (request_body a))]) =
                  [Create (JSON_stringify (request_body a))] @ take n (waiting (MAX_ATTEMPTS - 0) pid)"
    using poll_loop_trace [of env pid 0 "[Create (JSON_stringify (request_body a))]"] by blast
  then have "snd (generateImage env a) = Create (JSON_stringify (request_body a)) # take n (waiting MAX_ATTEMPTS pid)"
    using c by (simp add: generateImage_created)
  moreover have "Create b \<notin> set (take n (waiting MAX_ATTEMPTS pid))" for b
    using set_waiting [of MAX_ATTEMPTS pid] set_take_subset [of n "waiting MAX_ATTEMPTS pid"]
    by auto
  ultimately show ?thesis by blast
next
  case False
  then have "snd (generateImage env a) = [Create (JSON_stringify (request_body a))]"
    by (auto simp: generateImage_def job_created_def Let_def
             split: fetch_outcome.splits sum.splits)
  then show ?thesis by simp
qed

lemma call_tool_starts_with_Create:
  assumes "isReplicateArgs a"
  shows "\<exists>rest. snd (call_tool env ''replicate_image_generate'' (Some a)) =
                  Create (JSON_stringify (request_body a)) # rest \<and> (\<forall>b. Create b \<notin> set rest)"
proof -
  have "snd (call_tool env ''replicate_image_generate'' (Some a)) = snd (generateImage env a)"
    by (simp add: call_tool_valid [OF assms] split: prod.splits sum.splits)
  then show ?thesis
    using generateImage_starts_with_Create [of env a] by simp
qed

lemma nullish_value: "v \<noteq> JNull \<Longrightarrow> nullish (Some v) d = v"
  by (cases v) simp_all

lemma sent_field_stringify:
  "sent_field (JSON_stringify b) ''prompt'' = map_option sent_value (prompt (input b))"
  "sent_field (JSON_stringify b) ''raw'' = Some (sent_value (raw (input b)))"
  "sent_field (JSON_stringify b) ''seed'' = map_option sent_value (seed (input b))"
  "sent_field (JSON_stringify b) ''aspect_ratio'' = Some (sent_value (aspect_ratio (input b)))"
  "sent_field (JSON_stringify b) ''image_prompt'' =
     map_option sent_value (image_prompt (input b))"
  "sent_field (JSON_stringify b) ''output_format'' = Some (sent_value (output_format (input b)))"
  "sent_field (JSON_stringify b) ''safety_tolerance'' =
     Some (sent_value (safety_tolerance (input b)))"
  "sent_field (JSON_stringify b) ''image_prompt_strength'' =
     Some (sent_value (image_prompt_strength (input b)))"
  by (cases "prompt (input b)"; cases "seed (input b)"; cases "image_prompt (input b)";
      simp add: JSON_stringify_def sent_field_def)+

lemma sent_number_same: "double_number n \<Longrightarrow> sent_number n = JNum n"
  by (cases n) simp_all

lemma sent_value_same: "sent_unchanged v \<Longrightarrow> sent_value v = v"
proof (induction v)
  case (JArr xs)
  then show ?case by (simp add: list_all_iff map_idI)
next
  case (JObj kvs)
  have "map (map_prod id sent_value) kvs = kvs"
  proof (rule map_idI)
    fix kv assume kv: "kv \<in> set kvs"
    obtain k v where p: "kv = (k, v)" by (cases kv)
    with kv JObj.prems have "sent_unchanged v" by (auto simp: list_all_iff)
    moreover have "v \<in> Basic_BNFs.snds kv" using p by simp
    ultimately have "sent_value v = v" using JObj.IH kv by blast
    with p show "map_prod id sent_value kv = kv" by simp
  qed
  then show ?case by simp
qed (simp_all add: sent_number_same)

text \<open>
  C5, as stated, at valid arguments that supply \<open>raw\<close> as \<open>null\<close>: the body sent carries
  \<open>raw = false\<close>, not the \<open>null\<close> that was given.
\<close>

theorem null_raw_counterexample:
  "isReplicateArgs args_raw_null \<and>
   get_prop args_raw_null ''raw'' = Some JNull \<and>
   take 1 (snd (call_tool env_processing ''replicate_image_generate'' (Some args_raw_null))) =
     [Create (JSON_stringify (request_body args_raw_null))] \<and>
   raw (input (request_body args_raw_null)) = JBool False \<and>
   raw (input (request_body args_raw_null)) \<noteq> JNull \<and>
   sent_field (JSON_stringify (request_body args_raw_null)) ''raw'' = Some (JBool False) \<and>
   sent_field (JSON_stringify (request_body args_raw_null)) ''raw'' \<noteq> Some JNull"
proof -
  have v: "isReplicateArgs args_raw_null"
    by (simp add: isReplicateArgs_iff args_raw_null_def)
  obtain rest where "snd (call_tool env_processing ''replicate_image_generate'' (Some args_raw_null)) =
                     Create (JSON_stringify (request_body args_raw_null)) # rest"
    using call_tool_starts_with_Create [OF v] by blast
  then show ?thesis
    using v by (simp add: sent_field_stringify) (simp add: args_raw_null_def request_body_def)
qed

text \<open>
  C5 (amended): for every valid request exactly one job-creation call is made, first of
  all remote calls, and in the body it sends:
  \<^item> \<open>prompt\<close> is the prompt given; \<open>seed\<close> and \<open>image_prompt\<close> have no default: each is
    left out when omitted and otherwise written from the value given;
  \<^item> each of \<open>raw\<close>, \<open>aspect_ratio\<close>, \<open>output_format\<close>, \<open>safety_tolerance\<close> and
    \<open>image_prompt_strength\<close> is the default (\<open>false\<close>, \<open>1:1\<close>, \<open>jpg\<close>, \<open>2\<close>, \<open>0.1\<close>) when
    the field is omitted or \<open>null\<close>, and otherwise written from the value given;
  \<^item> writing a value changes nothing in it, whatever its type, unless it holds an
    infinite number or the negative zero: an infinity is sent as \<open>null\<close> and the negative
    zero as \<open>0\<close>.
  No value is checked against the declared schema.
\<close>

theorem request_defaults:
  assumes "isReplicateArgs a"
  shows "(\<exists>rest. snd (call_tool env ''replicate_image_generate'' (Some a)) =
                   Create (JSON_stringify (request_body a)) # rest \<and>
                 (\<forall>b. Create b \<notin> set rest)) \<and>
         sent_field (JSON_stringify (request_body a)) ''prompt'' = get_prop a ''prompt'' \<and>
         sent_field (JSON_stringify (request_body a)) ''seed'' =
           map_option sent_value (get_prop a ''seed'') \<and>
         sent_field (JSON_stringify (request_body a)) ''image_prompt'' =
           map_option sent_value (get_prop a ''image_prompt'') \<and>
         (get_prop a ''raw'' = None \<or> get_prop a ''raw'' = Some JNull \<longrightarrow>
            sent_field (JSON_stringify (request_body a)) ''raw'' = Some (JBool False)) \<and>
         (get_prop a ''aspect_ratio'' = None \<or> get_prop a ''aspect_ratio'' = Some JNull \<longrightarrow>
            sent_field (JSON_stringify (request_body a)) ''aspect_ratio'' = Some (JStr ''1:1'')) \<and>
         (get_prop a ''output_format'' = None \<or> get_prop a ''output_format'' = Some JNull \<longrightarrow>
            sent_field (JSON_stringify (request_body a)) ''output_format'' = Some (JStr ''jpg'')) \<and>
         (get_prop a ''safety_tolerance'' = None \<or> get_prop a ''safety_tolerance'' = Some JNull \<longrightarrow>
            sent_field (JSON_stringify (request_body a)) ''safety_tolerance'' =
              Some (JNum (Finite 2))) \<and>
         (get_prop a ''image_prompt_strength'' = None \<or>
          get_prop a ''image_prompt_strength'' = Some JNull \<longrightarrow>
            sent_field (JSON_stringify (request_body a)) ''image_prompt_strength'' =
              Some (JNum (Finite (1 / 10)))) \<and>
         (\<forall>v. v \<noteq> JNull \<longrightarrow>
            (get_prop a ''raw'' = Some v \<longrightarrow>
               sent_field (JSON_stringify (request_body a)) ''raw'' = Some (sent_value v)) \<and>
            (get_prop a ''aspect_ratio'' = Some v \<longrightarrow>
               sent_field (JSON_stringify (request_body a)) ''aspect_ratio'' =
                 Some (sent_value v)) \<and>
            (get_prop a ''output_format'' = Some v \<longrightarrow>
               sent_field (JSON_stringify (request_body a)) ''output_format'' =
                 Some (sent_value v)) \<and>
            (get_prop a ''safety_tolerance'' = Some v \<longrightarrow>
               sent_field (JSON_stringify (request_body a)) ''safety_tolerance'' =
                 Some (sent_value v)) \<and>
            (get_prop a ''image_prompt_strength'' = Some v \<longrightarrow>
               sent_field (JSON_stringify (request_body a)) ''image_prompt_strength'' =
                 Some (sent_value v))) \<and>
         (\<forall>v. sent_unchanged v \<longrightarrow> sent_value v = v) \<and>
         sent_value (JNum PosInfinity) = JNull \<and>
         sent_value (JNum NegInfinity) = JNull \<and>
         sent_value (JNum NegZero) = JNum (Finite 0)"
proof -
  let ?S = "JSON_stringify (request_body a)"
  have sent: "\<exists>rest. snd (call_tool env ''replicate_image_generate'' (Some a)) =
                  Create ?S # rest \<and> (\<forall>b. Create b \<notin> set rest)"
    using assms by (rule call_tool_starts_with_Create)
  obtain s where s: "get_prop a ''prompt'' = Some (JStr s)"
    using assms by (auto simp: isReplicateArgs_iff)
  have fields: "sent_field ?S ''prompt'' = get_prop a ''prompt''"
       "sent_field ?S ''seed'' = map_option sent_value (get_prop a ''seed'')"
       "sent_field ?S ''image_prompt'' = map_option sent_value (get_prop a ''image_prompt'')"
    using s by (simp_all add: sent_field_stringify request_body_def)
  have dflt: "get_prop a ''raw'' = None \<or> get_prop a ''raw'' = Some JNull \<longrightarrow>
            sent_field ?S ''raw'' = Some (JBool False)"
        "get_prop a ''aspect_ratio'' = None \<or> get_prop a ''aspect_ratio'' = Some JNull \<longrightarrow>
            sent_field ?S ''aspect_ratio'' = Some (JStr ''1:1'')"
        "get_prop a ''output_format'' = None \<or> get_prop a ''output_format'' = Some JNull \<longrightarrow>
            sent_field ?S ''output_format'' = Some (JStr ''jpg'')"
        "get_prop a ''safety_tolerance'' = None \<or> get_prop a ''safety_tolerance'' = Some JNull \<longrightarrow>
            sent_field ?S ''safety_tolerance'' = Some (JNum (Finite 2))"
        "get_prop a ''image_prompt_strength'' = None \<or>
          get_prop a ''image_prompt_strength'' = Some JNull \<longrightarrow>
            sent_field ?S ''image_prompt_strength'' = Some (JNum (Finite (1 / 10)))"
    by (auto simp: sent_field_stringify request_body_def)
  have given: "\<forall>v. v \<noteq> JNull \<longrightarrow>
            (get_prop a ''raw'' = Some v \<longrightarrow> sent_field ?S ''raw'' = Some (sent_value v)) \<and>
            (get_prop a ''aspect_ratio'' = Some v \<longrightarrow>
               sent_field ?S ''aspect_ratio'' = Some (sent_value v)) \<and>
            (get_prop a ''output_format'' = Some v \<longrightarrow>
               sent_field ?S ''output_format'' = Some (sent_value v)) \<and>
            (get_prop a ''safety_tolerance'' = Some v \<longrightarrow>
               sent_field ?S ''safety_tolerance'' = Some (sent_value v)) \<and>
            (get_prop a ''image_prompt_strength'' = Some v \<longrightarrow>
               sent_field ?S ''image_prompt_strength'' = Some (sent_value v))"
    by (simp add: sent_field_stringify request_body_def nullish_value)
  have same: "\<forall>v. sent_unchanged v \<longrightarrow> sent_value v = v"
    by (simp add: sent_value_same)
  have special: "sent_value (JNum PosInfinity) = JNull" "sent_value (JNum NegInfinity) = JNull"
       "sent_value (JNum NegZero) = JNum (Finite 0)"
    by simp_all
  show ?thesis
    using sent fields dflt given same special by blast
qed

text \<open>
  Only the prompt supplied: every default appears, \<open>seed\<close> and \<open>image_prompt\<close> are left
  out. Every field supplied, with values outside the declared schema: all are sent on.
  A negative zero, an infinity and an infinity inside an array: sent as \<open>0\<close> and \<open>null\<close>.
\<close>

theorem request_defaults_witness:
  "(\<exists>rest. snd (call_tool env_processing ''replicate_image_generate'' (Some args_cat)) =
             Create (JSON_stringify (request_body args_cat)) # rest \<and>
           (\<forall>b. Create b \<notin> set rest)) \<and>
   JSON_stringify (request_body args_cat) =
     JObj [(''input'',
            JObj [(''prompt'', JStr ''a cat''), (''raw'', JBool False),
                  (''aspect_ratio'', JStr ''1:1''), (''output_format'', JStr ''jpg''),
                  (''safety_tolerance'', JNum (Finite 2)),
                  (''image_prompt_strength'', JNum (Finite (1 / 10)))])] \<and>
   (\<exists>rest. snd (call_tool env_processing ''replicate_image_generate'' (Some args_full)) =
             Create (JSON_stringify (request_body args_full)) # rest \<and>
           (\<forall>b. Create b \<notin> set rest)) \<and>
   JSON_stringify (request_body args_full) =
     JObj [(''input'',
            JObj [(''prompt'', JStr ''a cat''), (''raw'', JBool True),
                  (''seed'', JNum (Finite 7)), (''aspect_ratio'', JStr ''7:5''),
                  (''image_prompt'', JStr ''not a uri''), (''output_format'', JStr ''gif''),
                  (''safety_tolerance'', JNum (Finite 99)),
                  (''image_prompt_strength'', JStr ''high'')])] \<and>
   (\<exists>rest. snd (call_tool env_processing ''replicate_image_generate'' (Some args_infinite)) =
             Create (JSON_stringify (request_body args_infinite)) # rest \<and>
           (\<forall>b. Create b \<notin> set rest)) \<and>
   JSON_stringify (request_body args_infinite) =
     JObj [(''input'',
            JObj [(''prompt'', JStr ''a cat''), (''raw'', JBool False),
                  (''seed'', JNum (Finite 0)), (''aspect_ratio'', JStr ''1:1''),
                  (''output_format'', JStr ''jpg''), (''safety_tolerance'', JNull),
                  (''image_prompt_strength'', JArr [JNull, JNum (Finite 1)])])]"
proof -
  have full: "isReplicateArgs args_full"
    by (simp add: isReplicateArgs_iff args_full_def)
  have inf: "isReplicateArgs args_infinite"
    by (simp add: isReplicateArgs_iff args_infinite_def)
  have docs: "JSON_stringify (request_body args_cat) =
     JObj [(''input'',
            JObj [(''prompt'', JStr ''a cat''), (''raw'', JBool False),
                  (''aspect_ratio'', JStr ''1:1''), (''output_format'', JStr ''jpg''),
                  (''safety_tolerance'', JNum (Finite 2)),
                  (''image_prompt_strength'', JNum (Finite (1 / 10)))])]"
    "JSON_stringify (request_body args_full) =
     JObj [(''input'',
            JObj [(''prompt'', JStr ''a cat''), (''raw'', JBool True),
                  (''seed'', JNum (Finite 7)), (''aspect_ratio'', JStr ''7:5''),
                  (''image_prompt'', JStr ''not a uri''), (''output_format'', JStr ''gif''),
                  (''safety_tolerance'', JNum (Finite 99)),
                  (''image_prompt_strength'', JStr ''high'')])]"
    "JSON_stringify (request_body args_infinite) =
     JObj [(''input'',
            JObj [(''prompt'', JStr ''a cat''), (''raw'', JBool False),
                  (''seed'', JNum (Finite 0)), (''aspect_ratio'', JStr ''1:1''),
                  (''output_format'', JStr ''jpg''), (''safety_tolerance'', JNull),
                  (''image_prompt_strength'', JArr [JNull, JNum (Finite 1)])])]"
    by (simp_all add: args_cat_def args_full_def args_infinite_def request_body_def
                      JSON_stringify_def)
  show ?thesis
    using request_defaults [OF isReplicateArgs_args_cat, of env_processing]
          request_defaults [OF full, of env_processing]
          request_defaults [OF inf, of env_processing]
          docs
    by simp
qed

section \<open>Non-success HTTP responses\<close>

lemma string_of_nat_500: "string_of_nat 500 = ''500''"
  by code_simp

lemma generateImage_create_http_error:
  assumes "create_outcome env (JSON_stringify (request_body a)) = Responded r" and "\<not> ok r"
  shows "generateImage env a = (Inl (api_error r), [Create (JSON_stringify (request_body a))])"
  using assms by (simp add: generateImage_def Let_def)

text \<open>
  C6: a job-creation call or a status read answered with a non-success HTTP status ends
  the invocation at once, with the error \<open>Replicate API error: <status> <status text>\<close>,
  a line break and the body text; the failing call is the last remote call (it is not
  repeated), so after a failed job-creation call no status read is made. The tool result
  has \<open>isError\<close> set.
\<close>

theorem http_error_aborts:
  assumes "isReplicateArgs a" and "\<not> ok r"
  shows "(create_outcome env (JSON_stringify (request_body a)) = Responded r \<longrightarrow>
            call_tool env ''replicate_image_generate'' (Some a) =
              (\<lparr>content =
                  [TextContent
                    (''Error: Replicate API error: '' @ string_of_nat (status_code r) @ '' '' @
                     statusText r @ [CHR 0x0A] @ body_text r)],
                isError = True\<rparr>,
               [Create (JSON_stringify (request_body a))]) \<and>
            polls_made (snd (call_tool env ''replicate_image_generate'' (Some a))) = 0) \<and>
         (job_created env a pid \<and> k < MAX_ATTEMPTS \<and>
          (\<forall>i<k. in_progress (poll_outcome env pid i)) \<and>
          poll_outcome env pid k = Responded r \<longrightarrow>
            call_tool env ''replicate_image_generate'' (Some a) =
              (\<lparr>content =
                  [TextContent
                    (''Error: Replicate API error: '' @ string_of_nat (status_code r) @ '' '' @
                     statusText r @ [CHR 0x0A] @ body_text r)],
                isError = True\<rparr>,
               Create (JSON_stringify (request_body a)) # waiting k pid @ [Poll pid]))"
proof (intro conjI impI)
  assume c: "create_outcome env (JSON_stringify (request_body a)) = Responded r"
  then have g: "generateImage env a = (Inl (api_error r), [Create (JSON_stringify (request_body a))])"
    using assms(2) by (rule generateImage_create_http_error)
  then show "call_tool env ''replicate_image_generate'' (Some a) =
              (\<lparr>content =
                  [TextContent
                    (''Error: Replicate API error: '' @ string_of_nat (status_code r) @ '' '' @
                     statusText r @ [CHR 0x0A] @ body_text r)],
                isError = True\<rparr>,
               [Create (JSON_stringify (request_body a))])"
    by (simp add: call_tool_valid [OF assms(1)] api_error_def)
  from g show "polls_made (snd (call_tool env ''replicate_image_generate'' (Some a))) = 0"
    by (simp add: call_tool_valid [OF assms(1)])
next
  assume h: "job_created env a pid \<and> k < MAX_ATTEMPTS \<and>
          (\<forall>i<k. in_progress (poll_outcome env pid i)) \<and>
          poll_outcome env pid k = Responded r"
  let ?tr = "Create (JSON_stringify (request_body a)) # waiting k pid"
  have "generateImage env a = poll_loop env pid k ?tr"
    using h by (intro generateImage_reach) simp_all
  moreover have "poll_loop env pid k ?tr = (Inl (api_error r), ?tr @ [Poll pid])"
    using h assms(2) by (intro poll_loop_http_error) simp_all
  ultimately show "call_tool env ''replicate_image_generate'' (Some a) =
              (\<lparr>content =
                  [TextContent
                    (''Error: Replicate API error: '' @ string_of_nat (status_code r) @ '' '' @
                     statusText r @ [CHR 0x0A] @ body_text r)],
                isError = True\<rparr>,
               Create (JSON_stringify (request_body a)) # waiting k pid @ [Poll pid])"
    by (simp add: call_tool_valid [OF assms(1)] api_error_def)
qed

text \<open>
  HTTP 500 on the job-creation call; and HTTP 500 on the third status read after two
  \<open>processing\<close> responses.
\<close>

theorem http_error_aborts_witness:
  "call_tool env_create_500 ''replicate_image_generate'' (Some args_cat) =
     (\<lparr>content =
         [TextContent
           (''Error: Replicate API error: 500 Internal Server Error'' @ [CHR 0x0A] @ ''oops'')],
       isError = True\<rparr>,
      [Create (JSON_stringify (request_body args_cat))]) \<and>
   call_tool env_poll_500 ''replicate_image_generate'' (Some args_cat) =
     (\<lparr>content =
         [TextContent
           (''Error: Replicate API error: 500 Internal Server Error'' @ [CHR 0x0A] @ ''oops'')],
       isError = True\<rparr>,
      [Create (JSON_stringify (request_body args_cat)), Poll ''p1'', Sleep 2000, Poll ''p1'', Sleep 2000,
       Poll ''p1''])"
proof -
  let ?r = "\<lparr>ok = False, status_code = 500, statusText = ''Internal Server Error'',
             body_text = ''oops'', body_json = Inl ''Unexpected token''\<rparr>"
  have w: "waiting 2 ''p1'' = [Poll ''p1'', Sleep 2000, Poll ''p1'', Sleep 2000]"
    by (simp add: waiting_def numeral_2_eq_2 POLL_INTERVAL_def)
  have "call_tool env_create_500 ''replicate_image_generate'' (Some args_cat) =
     (\<lparr>content =
         [TextContent
           (''Error: Replicate API error: 500 Internal Server Error'' @ [CHR 0x0A] @ ''oops'')],
       isError = True\<rparr>,
      [Create (JSON_stringify (request_body args_cat))])"
    using http_error_aborts [of args_cat ?r env_create_500]
    by (simp add: env_create_500_def http_500_def string_of_nat_500)
  moreover have "call_tool env_poll_500 ''replicate_image_generate'' (Some args_cat) =
     (\<lparr>content =
         [TextContent
           (''Error: Replicate API error: 500 Internal Server Error'' @ [CHR 0x0A] @ ''oops'')],
       isError = True\<rparr>,
      [Create (JSON_stringify (request_body args_cat)), Poll ''p1'', Sleep 2000, Poll ''p1'', Sleep 2000,
       Poll ''p1''])"
    using http_error_aborts [of args_cat ?r env_poll_500 "''p1''" 2]
    by (simp add: env_poll_500_def http_500_def string_of_nat_500 w)
  ultimately show ?thesis by simp
qed

section \<open>Errors at the tool-call boundary\<close>

text \<open>
  C7, as stated, at a request naming another tool: the result has \<open>isError\<close> set, but
  its text is \<open>Unknown tool: other_tool\<close>, which does not have the form
  \<open>Error: <description>\<close>.
\<close>

theorem unknown_tool_counterexample:
  "call_tool env_processing ''other_tool'' (Some (JObj [])) =
     (\<lparr>content = [TextContent ''Unknown tool: other_tool''], isError = True\<rparr>, []) \<and>
   \<not> starts_with
       (result_text (fst (call_tool env_processing ''other_tool'' (Some (JObj [])))))
       ''Error: ''"
  by (simp add: call_tool_def call_tool_try_def result_text_def)

text \<open>
  C7 (amended): every error thrown during a tool invocation (missing arguments, invalid
  arguments, and every failure of the job runner: remote, generation, timeout) is caught
  and returned as a result with \<open>isError\<close> set and the text \<open>Error: <message>\<close>. A request
  with arguments that names another tool is answered, without any throw, by a result with
  \<open>isError\<close> set and the text \<open>Unknown tool: <name>\<close>. The only result with \<open>isError\<close> unset
  is the success of the job runner.
\<close>

theorem errors_become_results:
  "(args = None \<or> (\<exists>a. args = Some a \<and> \<not> truthy a) \<longrightarrow>
      call_tool env name args =
        (\<lparr>content = [TextContent ''Error: No arguments provided''], isError = True\<rparr>, [])) \<and>
   (args = Some a \<and> truthy a \<and> \<not> isReplicateArgs a \<longrightarrow>
      call_tool env ''replicate_image_generate'' args =
        (\<lparr>content = [TextContent ''Error: Invalid arguments for replicate_image_generate''],
          isError = True\<rparr>, [])) \<and>
   (args = Some a \<and> isReplicateArgs a \<and> generateImage env a = (Inl msg, tr) \<longrightarrow>
      call_tool env ''replicate_image_generate'' args =
        (\<lparr>content = [TextContent (''Error: '' @ msg)], isError = True\<rparr>, tr)) \<and>
   (args = Some a \<and> truthy a \<and> name \<noteq> ''replicate_image_generate'' \<longrightarrow>
      call_tool env name args =
        (\<lparr>content = [TextContent (''Unknown tool: '' @ name)], isError = True\<rparr>, [])) \<and>
   (isError (fst (call_tool env name args)) \<and>
      (starts_with (result_text (fst (call_tool env name args))) ''Error: '' \<or>
       result_text (fst (call_tool env name args)) = ''Unknown tool: '' @ name) \<or>
    (\<exists>a u. args = Some a \<and> name = ''replicate_image_generate'' \<and> isReplicateArgs a \<and>
           fst (generateImage env a) = Inr u \<and>
           fst (call_tool env name args) =
             \<lparr>content = [TextContent (''Generated image URL: '' @ u)], isError = False\<rparr>))"
proof (intro conjI impI)
  assume "args = None \<or> (\<exists>a. args = Some a \<and> \<not> truthy a)"
  then show "call_tool env name args =
        (\<lparr>content = [TextContent ''Error: No arguments provided''], isError = True\<rparr>, [])"
    by (auto simp: call_tool_def call_tool_try_def)
next
  assume "args = Some a \<and> truthy a \<and> \<not> isReplicateArgs a"
  then show "call_tool env ''replicate_image_generate'' args =
        (\<lparr>content = [TextContent ''Error: Invalid arguments for replicate_image_generate''],
          isError = True\<rparr>, [])"
    by (simp add: call_tool_def call_tool_try_def)
next
  assume "args = Some a \<and> isReplicateArgs a \<and> generateImage env a = (Inl msg, tr)"
  then show "call_tool env ''replicate_image_generate'' args =
        (\<lparr>content = [TextContent (''Error: '' @ msg)], isError = True\<rparr>, tr)"
    by (simp add: call_tool_valid)
next
  assume "args = Some a \<and> truthy a \<and> name \<noteq> ''replicate_image_generate''"
  then show "call_tool env name args =
        (\<lparr>content = [TextContent (''Unknown tool: '' @ name)], isError = True\<rparr>, [])"
    by (simp add: call_tool_def call_tool_try_def)
next
  have s: "starts_with (''Error: '' @ m) ''Error: ''" for m
    by (rule starts_with_append)
  show "isError (fst (call_tool env name args)) \<and>
      (starts_with (result_text (fst (call_tool env name args))) ''Error: '' \<or>
       result_text (fst (call_tool env name args)) = ''Unknown tool: '' @ name) \<or>
    (\<exists>a u. args = Some a \<and> name = ''replicate_image_generate'' \<and> isReplicateArgs a \<and>
           fst (generateImage env a) = Inr u \<and>
           fst (call_tool env name args) =
             \<lparr>content = [TextContent (''Generated image URL: '' @ u)], isError = False\<rparr>)"
  proof (cases "\<exists>a. args = Some a \<and> truthy a")
    case False
    then have "call_tool env name args =
        (\<lparr>content = [TextContent (''Error: '' @ ''No arguments provided'')], isError = True\<rparr>, [])"
      by (cases args) (auto simp: call_tool_def call_tool_try_def)
    then show ?thesis
      using s [of "''No arguments provided''"] by (simp add: result_text_def del: starts_with.simps)
  next
    case True
    then obtain b where b: "args = Some b" "truthy b" by blast
    show ?thesis
    proof (cases "name = ''replicate_image_generate''")
      case False
      then have "call_tool env name args =
        (\<lparr>content = [TextContent (''Unknown tool: '' @ name)], isError = True\<rparr>, [])"
        using b by (simp add: call_tool_def call_tool_try_def)
      then show ?thesis by (simp add: result_text_def)
    next
      case n: True
      show ?thesis
      proof (cases "isReplicateArgs b")
        case False
        then have "call_tool env name args =
          (\<lparr>content = [TextContent (''Error: '' @ ''Invalid arguments for replicate_image_generate'')],
            isError = True\<rparr>, [])"
          using b n by (simp add: call_tool_def call_tool_try_def)
        then show ?thesis
          using s [of "''Invalid arguments for replicate_image_generate''"]
          by (simp add: result_text_def del: starts_with.simps)
      next
        case v: True
        obtain x t where g: "generateImage env b = (x, t)" by (cases "generateImage env b")
        show ?thesis
        proof (cases x)
          case (Inl m)
          then have "call_tool env name args =
            (\<lparr>content = [TextContent (''Error: '' @ m)], isError = True\<rparr>, t)"
            using b n g by (simp add: call_tool_valid [OF v])
          then show ?thesis
            using s [of m] by (simp add: result_text_def del: starts_with.simps)
        next
          case (Inr u)
          then have "call_tool env name args =
            (\<lparr>content = [TextContent (''Generated image URL: '' @ u)], isError = False\<rparr>, t)"
            using b n g by (simp add: call_tool_valid [OF v])
          then show ?thesis
            using b n v g Inr by simp
        qed
      qed
    qed
  qed
qed

text \<open>
  No arguments; an object without prompt; a job-creation call answered with HTTP 500;
  another tool's name.
\<close>

theorem errors_become_results_witness:
  "call_tool env_processing ''replicate_image_generate'' None =
     (\<lparr>content = [TextContent ''Error: No arguments provided''], isError = True\<rparr>, []) \<and>
   call_tool env_processing ''replicate_image_generate'' (Some args_no_prompt) =
     (\<lparr>content = [TextContent ''Error: Invalid arguments for replicate_image_generate''],
       isError = True\<rparr>, []) \<and>
   call_tool env_create_500 ''replicate_image_generate'' (Some args_cat) =
     (\<lparr>content =
         [TextContent
           (''Error: Replicate API error: 500 Internal Server Error'' @ [CHR 0x0A] @ ''oops'')],
       isError = True\<rparr>,
      [Create (JSON_stringify (request_body args_cat))]) \<and>
   call_tool env_processing ''other_tool'' (Some args_cat) =
     (\<lparr>content = [TextContent ''Unknown tool: other_tool''], isError = True\<rparr>, [])"
proof -
  have g: "generateImage env_create_500 args_cat =
           (Inl (''Replicate API error: 500 Internal Server Error'' @ [CHR 0x0A] @ ''oops''),
            [Create (JSON_stringify (request_body args_cat))])"
    by (simp add: generateImage_def Let_def env_create_500_def http_500_def api_error_def
                  string_of_nat_500)
  have np: "truthy args_no_prompt \<and> \<not> isReplicateArgs args_no_prompt"
    by (simp add: isReplicateArgs_iff args_no_prompt_def)
  have t: "truthy args_cat"
    by (simp add: args_cat_def)
  show ?thesis
    using errors_become_results [where args = None and env = env_processing
                                   and name = "''replicate_image_generate''"]
          errors_become_results [where args = "Some args_no_prompt" and a = args_no_prompt
                                   and env = env_processing]
          errors_become_results [where args = "Some args_cat" and a = args_cat
                                   and env = env_create_500]
          errors_become_results [where args = "Some args_cat" and a = args_cat
                                   and env = env_processing and name = "''other_tool''"]
          g np t
    by simp
qed

section \<open>An empty prompt\<close>

text \<open>
  C10: arguments whose \<open>prompt\<close> is the empty string pass the guard (the guard tests only
  that \<open>prompt\<close> is a string), and the job-creation call is made with that empty prompt.
\<close>

theorem empty_prompt_accepted:
  assumes "get_prop a ''prompt'' = Some (JStr [])"
  shows "isReplicateArgs a \<and>
         (\<exists>rest. snd (call_tool env ''replicate_image_generate'' (Some a)) =
                   Create (JSON_stringify (request_body a)) # rest) \<and>
         prompt (input (request_body a)) = Some (JStr []) \<and>
         sent_field (JSON_stringify (request_body a)) ''prompt'' = Some (JStr [])"
proof -
  have v: "isReplicateArgs a"
    using assms by (simp add: isReplicateArgs_iff)
  then obtain rest where "snd (call_tool env ''replicate_image_generate'' (Some a)) =
                          Create (JSON_stringify (request_body a)) # rest"
    using call_tool_starts_with_Create by blast
  then show ?thesis
    using v assms by (simp add: sent_field_stringify) (simp add: request_body_def)
qed

theorem empty_prompt_accepted_witness:
  "isReplicateArgs args_empty_prompt \<and>
   (\<exists>rest. snd (call_tool env_processing ''replicate_image_generate'' (Some args_empty_prompt)) =
             Create (JSON_stringify (request_body args_empty_prompt)) # rest) \<and>
   prompt (input (request_body args_empty_prompt)) = Some (JStr []) \<and>
   sent_field (JSON_stringify (request_body args_empty_prompt)) ''prompt'' = Some (JStr [])"
  using empty_prompt_accepted [of args_empty_prompt env_processing]
  by (simp add: args_empty_prompt_def)

end
